theory Spec2Isabelle
  imports Complex_Main "HOL-Library.Sublist"
begin

section \<open>Decoded JSON values\<close>

text \<open>
  The values \<^verbatim>\<open>json.loads\<close> produces: \<^verbatim>\<open>None\<close>, booleans, unbounded integers,
  floats, strings, lists and dictionaries. A dictionary is an association list read with
  \<open>map_of\<close>. Strings are byte strings in UTF-8.
\<close>

datatype pyfloat = Finite rat | PosInf | NegInf | NaN

datatype json =
    JNull
  | JBool bool
  | JInt int
  | JFloat pyfloat
  | JStr string
  | JArr "json list"
  | JObj "(string \<times> json) list"

text \<open>Python's truth value of a decoded value, as tested by \<^verbatim>\<open>if x:\<close>.\<close>

fun truthy :: "json \<Rightarrow> bool" where
  "truthy JNull = False"
| "truthy (JBool b) = b"
| "truthy (JInt n) = (n \<noteq> 0)"
| "truthy (JFloat f) = (f \<noteq> Finite 0)"
| "truthy (JStr s) = (s \<noteq> [])"
| "truthy (JArr xs) = (xs \<noteq> [])"
| "truthy (JObj kv) = (kv \<noteq> [])"

text \<open>\<^verbatim>\<open>d.get(key, default)\<close>.\<close>

definition dict_get :: "(string \<times> json) list \<Rightarrow> string \<Rightarrow> json \<Rightarrow> json" where
  "dict_get d k dflt = (case map_of d k of None \<Rightarrow> dflt | Some v \<Rightarrow> v)"

section \<open>Exceptions\<close>

datatype loc_item = Key string | Idx nat

type_synonym error_detail = "loc_item list \<times> string"

datatype exn =
    APIError string
  | JSONDecodeError
  | TypeError
  | ValueError
  | AttributeError
  | KeyError string
  | ValidationError "error_detail list"

definition bind_exn :: "exn + 'a \<Rightarrow> ('a \<Rightarrow> exn + 'b) \<Rightarrow> exn + 'b" where
  "bind_exn r f = (case r of Inl e \<Rightarrow> Inl e | Inr x \<Rightarrow> f x)"

section \<open>String operations\<close>

text \<open>
  Python's string methods on UTF-8 byte strings. \<^verbatim>\<open>upper\<close> and \<^verbatim>\<open>strip\<close> are the
  ASCII ones: the case mapping of letters and the white space beyond ASCII are left as
  they are.
\<close>

definition upper_char :: "char \<Rightarrow> char" where
  "upper_char c = (let n = (of_char c :: nat) in if 97 \<le> n \<and> n \<le> 122 then char_of (n - 32) else c)"

definition upper :: "string \<Rightarrow> string" where
  "upper s = map upper_char s"

definition isspace :: "char \<Rightarrow> bool" where
  "isspace c = (let n = (of_char c :: nat) in (9 \<le> n \<and> n \<le> 13) \<or> (28 \<le> n \<and> n \<le> 32))"

definition strip :: "string \<Rightarrow> string" where
  "strip s = rev (dropWhile isspace (rev (dropWhile isspace s)))"

text \<open>\<^verbatim>\<open>s.split('\n')\<close>, with the current piece as accumulator.\<close>

fun split_lines :: "string \<Rightarrow> string \<Rightarrow> string list" where
  "split_lines cur [] = [cur]"
| "split_lines cur (c # cs) =
     (if c = CHR 0x0A then cur # split_lines [] cs else split_lines (cur @ [c]) cs)"

text \<open>\<^verbatim>\<open>sep.join(xs)\<close>.\<close>

fun join :: "string \<Rightarrow> string list \<Rightarrow> string" where
  "join sep [] = []"
| "join sep [x] = x"
| "join sep (x # y # ys) = x @ sep @ join sep (y # ys)"

text \<open>\<^verbatim>\<open>s.replace(m, '')\<close> for the middle dot U+00B7, the two bytes C2 B7.\<close>

fun remove_middle_dot :: "string \<Rightarrow> string" where
  "remove_middle_dot (a # b # cs) =
     (if a = CHR 0xC2 \<and> b = CHR 0xB7 then remove_middle_dot cs else a # remove_middle_dot (b # cs))"
| "remove_middle_dot cs = cs"

definition em_dash :: string where
  "em_dash = [CHR 0xE2, CHR 0x80, CHR 0x94]"

definition bullet :: string where
  "bullet = [CHR 0xE2, CHR 0x80, CHR 0xA2]"

section \<open>Schema definitions (schema.py, app.py lines 25-47)\<close>

record WorkExperience =
  title :: string
  company :: string
  years :: string
  summary :: string

record ResumeProfile =
  name :: string
  email :: string
  summary :: string
  skills :: "string list"
  experience :: "WorkExperience list"

record OptimizationReport =
  match_score :: int
  keyword_gaps :: "string list"
  suggestions :: "string list"

record InterviewSettings =
  role :: string
  type :: string
  status :: string
  history :: "string list"

subsection \<open>Field validators of the model library\<close>

text \<open>
  The classes are pydantic models with default configuration (lax mode, unknown keys
  ignored). A validator returns the converted value or the list of error details, each
  a location and an error type. On decoded JSON a \<^verbatim>\<open>str\<close> field accepts a string only,
  a \<^verbatim>\<open>List\<close> field a list only, a nested model a dictionary only. An \<^verbatim>\<open>int\<close> field
  accepts an integer of any size and, in lax mode, a boolean, a float without fractional
  part that lies within 64 bits, and a numeric string; of the numeric strings, the decimal
  digit strings with an optional sign, white space around them removed, are modelled here.
\<close>

definition errs :: "error_detail list + 'a \<Rightarrow> error_detail list" where
  "errs r = (case r of Inl es \<Rightarrow> es | Inr _ \<Rightarrow> [])"

definition at_loc :: "loc_item \<Rightarrow> error_detail \<Rightarrow> error_detail" where
  "at_loc i d = (i # fst d, snd d)"

definition str_validator :: "json \<Rightarrow> error_detail list + string" where
  "str_validator v = (case v of JStr s \<Rightarrow> Inr s | _ \<Rightarrow> Inl [([], ''string_type'')])"

definition digit_val :: "char \<Rightarrow> nat option" where
  "digit_val c =
     (let n = (of_char c :: nat) in if 48 \<le> n \<and> n \<le> 57 then Some (n - 48) else None)"

fun digits_val :: "nat \<Rightarrow> string \<Rightarrow> nat option" where
  "digits_val acc [] = Some acc"
| "digits_val acc (c # cs) =
     (case digit_val c of None \<Rightarrow> None | Some d \<Rightarrow> digits_val (10 * acc + d) cs)"

fun str_as_int :: "string \<Rightarrow> int option" where
  "str_as_int [] = None"
| "str_as_int (c # cs) =
     (if c = CHR ''-'' then (if cs = [] then None else map_option (\<lambda>n. - int n) (digits_val 0 cs))
      else if c = CHR ''+'' then (if cs = [] then None else map_option int (digits_val 0 cs))
      else map_option int (digits_val 0 (c # cs)))"

definition int_validator :: "json \<Rightarrow> error_detail list + int" where
  "int_validator v =
     (case v of
        JInt n \<Rightarrow> Inr n
      | JBool b \<Rightarrow> Inr (if b then 1 else 0)
      | JFloat f \<Rightarrow>
          (case f of
             Finite q \<Rightarrow>
               (if q \<noteq> of_int \<lfloor>q\<rfloor> then Inl [([], ''int_from_float'')]
                else if - (2 ^ 63) < q \<and> q < 2 ^ 63 then Inr \<lfloor>q\<rfloor>
                else Inl [([], ''int_parsing_size'')])
           | _ \<Rightarrow> Inl [([], ''finite_number'')])
      | JStr s \<Rightarrow> (case str_as_int (strip s) of Some n \<Rightarrow> Inr n | None \<Rightarrow> Inl [([], ''int_parsing'')])
      | _ \<Rightarrow> Inl [([], ''int_type'')])"

fun list_items :: "nat \<Rightarrow> (json \<Rightarrow> error_detail list + 'a) \<Rightarrow> json list \<Rightarrow> error_detail list + 'a list" where
  "list_items i v [] = Inr []"
| "list_items i v (x # xs) =
     (let a = v x; b = list_items (Suc i) v xs
      in if isl a \<or> isl b then Inl (map (at_loc (Idx i)) (errs a) @ errs b)
         else Inr (projr a # projr b))"

definition list_validator :: "(json \<Rightarrow> error_detail list + 'a) \<Rightarrow> json \<Rightarrow> error_detail list + 'a list" where
  "list_validator v j = (case j of JArr xs \<Rightarrow> list_items 0 v xs | _ \<Rightarrow> Inl [([], ''list_type'')])"

text \<open>A required field: absent from the keyword arguments, it is the error \<open>missing\<close>.\<close>

definition field :: "(string \<times> json) list \<Rightarrow> string \<Rightarrow> (json \<Rightarrow> error_detail list + 'a) \<Rightarrow> error_detail list + 'a" where
  "field kw k v =
     (case map_of kw k of
        None \<Rightarrow> Inl [([Key k], ''missing'')]
      | Some x \<Rightarrow> (case v x of Inl es \<Rightarrow> Inl (map (at_loc (Key k)) es) | Inr y \<Rightarrow> Inr y))"

text \<open>A field declared with \<^verbatim>\<open>Field(default=...)\<close>: absent, it takes the default.\<close>

definition field_default :: "(string \<times> json) list \<Rightarrow> string \<Rightarrow> (json \<Rightarrow> error_detail list + 'a) \<Rightarrow> 'a \<Rightarrow> error_detail list + 'a" where
  "field_default kw k v dflt =
     (case map_of kw k of
        None \<Rightarrow> Inr dflt
      | Some x \<Rightarrow> (case v x of Inl es \<Rightarrow> Inl (map (at_loc (Key k)) es) | Inr y \<Rightarrow> Inr y))"

subsection \<open>Construction of the models from keyword arguments\<close>

definition WorkExperience_init :: "(string \<times> json) list \<Rightarrow> error_detail list + WorkExperience" where
  "WorkExperience_init kw =
     (let t = field kw ''title'' str_validator;
          c = field kw ''company'' str_validator;
          y = field kw ''years'' str_validator;
          s = field kw ''summary'' str_validator
      in if isl t \<or> isl c \<or> isl y \<or> isl s then Inl (errs t @ errs c @ errs y @ errs s)
         else Inr \<lparr>title = projr t, company = projr c, years = projr y, summary = projr s\<rparr>)"

text \<open>A nested model field takes a dictionary.\<close>

definition WorkExperience_validator :: "json \<Rightarrow> error_detail list + WorkExperience" where
  "WorkExperience_validator j =
     (case j of JObj kw \<Rightarrow> WorkExperience_init kw | _ \<Rightarrow> Inl [([], ''model_type'')])"

definition ResumeProfile_init :: "(string \<times> json) list \<Rightarrow> error_detail list + ResumeProfile" where
  "ResumeProfile_init kw =
     (let n = field kw ''name'' str_validator;
          e = field kw ''email'' str_validator;
          s = field kw ''summary'' str_validator;
          k = field kw ''skills'' (list_validator str_validator);
          x = field kw ''experience'' (list_validator WorkExperience_validator)
      in if isl n \<or> isl e \<or> isl s \<or> isl k \<or> isl x
         then Inl (errs n @ errs e @ errs s @ errs k @ errs x)
         else Inr \<lparr>name = projr n, email = projr e, summary = projr s,
                   skills = projr k, experience = projr x\<rparr>)"

definition OptimizationReport_init :: "(string \<times> json) list \<Rightarrow> error_detail list + OptimizationReport" where
  "OptimizationReport_init kw =
     (let m = field kw ''match_score'' int_validator;
          g = field kw ''keyword_gaps'' (list_validator str_validator);
          s = field kw ''suggestions'' (list_validator str_validator)
      in if isl m \<or> isl g \<or> isl s then Inl (errs m @ errs g @ errs s)
         else Inr \<lparr>match_score = projr m, keyword_gaps = projr g, suggestions = projr s\<rparr>)"

definition InterviewSettings_init :: "(string \<times> json) list \<Rightarrow> error_detail list + InterviewSettings" where
  "InterviewSettings_init kw =
     (let r = field kw ''role'' str_validator;
          t = field kw ''type'' str_validator;
          s = field_default kw ''status'' str_validator ''ready'';
          h = field_default kw ''history'' (list_validator str_validator) []
      in if isl r \<or> isl t \<or> isl s \<or> isl h then Inl (errs r @ errs t @ errs s @ errs h)
         else Inr \<lparr>role = projr r, type = projr t, status = projr s, history = projr h\<rparr>)"

section \<open>Core functions of app.py\<close>

text \<open>
  The generative service is outside the program. A call to \<^verbatim>\<open>generate_content\<close> either
  raises or returns a response; the response's text is represented by what
  \<^verbatim>\<open>json.loads\<close> makes of it: a decoded value, or the exception raised for text that
  is not JSON.
\<close>

datatype response = Response "exn + json"

definition json_loads_text :: "response \<Rightarrow> exn + json" where
  "json_loads_text r = (case r of Response x \<Rightarrow> x)"

text \<open>What a function shows on the page through \<^verbatim>\<open>st.warning\<close> and \<^verbatim>\<open>st.error\<close>.\<close>

datatype ui =
    St_warning string
  | St_error string
  | St_error_exn string exn

text \<open>
  \<^verbatim>\<open>ResumeProfile(**d)\<close>: unpacking a value that is not a dictionary raises
  \<^verbatim>\<open>TypeError\<close>, a failed validation raises \<^verbatim>\<open>ValidationError\<close>.
\<close>

definition ResumeProfile_unpack :: "json \<Rightarrow> exn + ResumeProfile" where
  "ResumeProfile_unpack j =
     (case j of
        JObj kw \<Rightarrow> (case ResumeProfile_init kw of Inl es \<Rightarrow> Inl (ValidationError es) | Inr p \<Rightarrow> Inr p)
      | _ \<Rightarrow> Inl TypeError)"

text \<open>
  \<^verbatim>\<open>parse_resume_to_json\<close> (app.py lines 150-161). \<open>client\<close> tells whether the module's
  client is set; \<open>call\<close> is the outcome of the one call to the service. The result is the
  returned record (\<open>None\<close> for Python's \<^verbatim>\<open>None\<close>) and the messages shown.
\<close>

definition parse_resume_to_json :: "bool \<Rightarrow> exn + response \<Rightarrow> ResumeProfile option \<times> ui list" where
  "parse_resume_to_json client call =
     (if \<not> client then (None, [St_warning ''AI client not available.''])
      else
        (case bind_exn call (\<lambda>response. bind_exn (json_loads_text response) ResumeProfile_unpack) of
           Inr profile \<Rightarrow> (Some profile, [])
         | Inl e \<Rightarrow> (None, [St_error_exn ''AI Parsing Error: '' e])))"

text \<open>
  \<^verbatim>\<open>generate_optimization_report\<close> (app.py lines 173-181) returns the decoded value as
  it is; \<^verbatim>\<open>OptimizationReport\<close> is only handed to the service as the requested shape.
  Python's \<^verbatim>\<open>None\<close> is \<open>JNull\<close>.
\<close>

definition generate_optimization_report :: "bool \<Rightarrow> exn + response \<Rightarrow> json \<times> ui list" where
  "generate_optimization_report client call =
     (if \<not> client then (JNull, [])
      else
        (case bind_exn call json_loads_text of
           Inr j \<Rightarrow> (j, [])
         | Inl e \<Rightarrow> (JNull, [St_error_exn ''Optimization API Error: '' e])))"

text \<open>
  The handler of the analysis button, app.py lines 337-341 and 349-350: the three values
  it reads from a truthy result and hands to the score and list widgets, or \<open>None\<close> when
  it reports that the analysis failed. \<^verbatim>\<open>.get\<close> on a truthy value that is not a
  dictionary raises \<^verbatim>\<open>AttributeError\<close>.
\<close>

record report_view =
  score :: json
  gaps :: json
  suggestions_shown :: json

definition analyze_profile_button :: "json \<Rightarrow> exn + report_view option" where
  "analyze_profile_button optimization_result =
     (if truthy optimization_result then
        (case optimization_result of
           JObj d \<Rightarrow>
             Inr (Some \<lparr>score = dict_get d ''match_score'' (JInt 0),
                        gaps = dict_get d ''keyword_gaps'' (JArr [JStr ''N/A'']),
                        suggestions_shown = dict_get d ''suggestions'' (JArr [JStr ''N/A''])\<rparr>)
         | _ \<Rightarrow> Inl AttributeError)
      else Inr None)"

section \<open>Document renderers\<close>

text \<open>
  A renderer's locals: the profile it was given and the document it builds. Every
  statement of a renderer is a step on this frame: it completes with a new frame, or it
  raises, and the exception is paired with the frame that the statements completed before
  it have left.
\<close>

record 'd frame =
  profile :: ResumeProfile
  doc :: 'd

fun steps :: "('s \<Rightarrow> (exn \<times> 's) + 's) list \<Rightarrow> 's \<Rightarrow> (exn \<times> 's) + 's" where
  "steps [] s = Inr s"
| "steps (f # fs) s = (case f s of Inl x \<Rightarrow> Inl x | Inr t \<Rightarrow> steps fs t)"

text \<open>A statement that cannot raise.\<close>

definition completes :: "('s \<Rightarrow> 's) \<Rightarrow> 's \<Rightarrow> (exn \<times> 's) + 's" where
  "completes f s = Inr (f s)"

text \<open>A statement keeps the profile when the frame it leaves, either way, holds the profile it found.\<close>

definition keeps_profile :: "('d frame \<Rightarrow> (exn \<times> 'd frame) + 'd frame) \<Rightarrow> bool" where
  "keeps_profile f =
     (\<forall>s. case f s of Inl (e, t) \<Rightarrow> profile t = profile s | Inr t \<Rightarrow> profile t = profile s)"

subsection \<open>The layout library of the PDF renderers\<close>

text \<open>
  The story handed to the layout library: paragraphs of marked-up text with the name of
  their style, spacers and bullet lists. Lengths are in points.
\<close>

datatype flowable =
    Paragraph string string
  | Spacer rat rat
  | ListItem flowable string
  | ListFlowable "flowable list" string string

text \<open>
  The library is outside the program. Its \<^verbatim>\<open>Paragraph\<close> constructor parses the
  marked-up text and raises on text it cannot parse; \<^verbatim>\<open>doc.build\<close> lays the story out
  and writes the bytes of the buffer, or raises. The reader library gives the text of
  each page of a byte stream, or raises.
\<close>

record pdf_library =
  Paragraph_raises :: "string \<Rightarrow> exn option"
  build :: "flowable list \<Rightarrow> exn + string"
  extract_text :: "string \<Rightarrow> exn + string list"


definition inch :: rat where
  "inch = 72"

definition Story_append :: "flowable \<Rightarrow> flowable list frame \<Rightarrow> flowable list frame" where
  "Story_append f s = s\<lparr>doc := doc s @ [f]\<rparr>"

text \<open>\<^verbatim>\<open>Story.append(Paragraph(text, style))\<close>.\<close>

definition append_Paragraph ::
  "pdf_library \<Rightarrow> string \<Rightarrow> string \<Rightarrow> flowable list frame \<Rightarrow> (exn \<times> flowable list frame) + flowable list frame" where
  "append_Paragraph L t st s =
     (case Paragraph_raises L t of
        Some e \<Rightarrow> Inl (e, s)
      | None \<Rightarrow> Inr (Story_append (Paragraph t st) s))"

subsection \<open>PDF (app.py lines 85-117)\<close>

text \<open>The list comprehension of line 111: one bullet for every line that is not blank.\<close>

fun bullet_lines :: "pdf_library \<Rightarrow> string list \<Rightarrow> exn + flowable list" where
  "bullet_lines L [] = Inr []"
| "bullet_lines L (line # ls) =
     (if strip line \<noteq> [] then
        (case Paragraph_raises L (strip line) of
           Some e \<Rightarrow> Inl e
         | None \<Rightarrow>
            (case bullet_lines L ls of
               Inl e \<Rightarrow> Inl e
             | Inr items \<Rightarrow> Inr (ListItem (Paragraph (strip line) ''NormalSmall'') bullet # items)))
      else bullet_lines L ls)"

definition bullet_items :: "pdf_library \<Rightarrow> WorkExperience \<Rightarrow> exn + flowable list" where
  "bullet_items L ex =
     (let clean_summary = strip (remove_middle_dot (WorkExperience.summary ex))
      in bullet_lines L (split_lines [] clean_summary))"

definition pdf_experience ::
  "pdf_library \<Rightarrow> WorkExperience \<Rightarrow> flowable list frame \<Rightarrow> (exn \<times> flowable list frame) + flowable list frame" where
  "pdf_experience L ex =
     steps [
       append_Paragraph L (''<b>'' @ title ex @ ''</b> at '' @ company ex) ''NormalSmall'',
       append_Paragraph L (years ex) ''Italic'',
       (\<lambda>s. case bullet_items L ex of
               Inl e \<Rightarrow> Inl (e, s)
             | Inr items \<Rightarrow>
                 if items \<noteq> [] then Inr (Story_append (ListFlowable items ''bullet'' ''bullet'') s)
                 else Inr s),
       completes (Story_append (Spacer 1 (1 / 10 * inch)))]"

definition generate_pdf_v2_run ::
  "pdf_library \<Rightarrow> flowable list frame \<Rightarrow> (exn \<times> flowable list frame) + flowable list frame" where
  "generate_pdf_v2_run L =
     steps [
       (\<lambda>s. append_Paragraph L (upper (name (profile s))) ''HeadingName'' s),
       (\<lambda>s. append_Paragraph L (email (profile s)) ''Italic'' s),
       completes (Story_append (Spacer 1 (2 / 10 * inch))),
       append_Paragraph L ''SUMMARY'' ''HeadingSection'',
       (\<lambda>s. append_Paragraph L (strip (ResumeProfile.summary (profile s))) ''NormalSmall'' s),
       completes (Story_append (Spacer 1 (1 / 10 * inch))),
       append_Paragraph L ''KEY SKILLS'' ''HeadingSection'',
       (\<lambda>s. append_Paragraph L (''Skills: '' @ join '', '' (skills (profile s))) ''NormalSmall'' s),
       completes (Story_append (Spacer 1 (1 / 10 * inch))),
       append_Paragraph L ''WORK EXPERIENCE'' ''HeadingSection'',
       (\<lambda>s. steps (map (pdf_experience L) (experience (profile s))) s)]"


subsection \<open>PDF of document_assets.py (lines 18-74)\<close>

text \<open>
  This module imports \<^verbatim>\<open>Inches\<close> from the office-document library, where it is a
  class: the product \<^verbatim>\<open>0.2*Inches\<close> of a float and a class raises \<^verbatim>\<open>TypeError\<close>.
\<close>

definition float_times_Inches :: "rat \<Rightarrow> exn + rat" where
  "float_times_Inches x = Inl TypeError"

text \<open>\<^verbatim>\<open>Story.append(Spacer(1, x*Inches))\<close>.\<close>

definition append_Spacer_Inches ::
  "rat \<Rightarrow> flowable list frame \<Rightarrow> (exn \<times> flowable list frame) + flowable list frame" where
  "append_Spacer_Inches x s =
     (case float_times_Inches x of
        Inl e \<Rightarrow> Inl (e, s)
      | Inr h \<Rightarrow> Inr (Story_append (Spacer 1 h) s))"

definition assets_experience ::
  "pdf_library \<Rightarrow> WorkExperience \<Rightarrow> flowable list frame \<Rightarrow> (exn \<times> flowable list frame) + flowable list frame" where
  "assets_experience L ex =
     steps [
       append_Paragraph L (''<b>'' @ title ex @ ''</b> at '' @ company ex) ''Heading3'',
       append_Paragraph L (years ex) ''Italic'',
       (\<lambda>s. case Paragraph_raises L (WorkExperience.summary ex) of
               Some e \<Rightarrow> Inl (e, s)
             | None \<Rightarrow>
                 Inr (Story_append
                       (ListFlowable [ListItem (Paragraph (WorkExperience.summary ex) ''Normal'') []]
                          ''bullet'' ''bullet'') s)),
       append_Spacer_Inches (1 / 10)]"

definition generate_pdf_run ::
  "pdf_library \<Rightarrow> flowable list frame \<Rightarrow> (exn \<times> flowable list frame) + flowable list frame" where
  "generate_pdf_run L =
     steps [
       (\<lambda>s. append_Paragraph L (name (profile s)) ''Heading1'' s),
       (\<lambda>s. append_Paragraph L (email (profile s)) ''Italic'' s),
       append_Spacer_Inches (2 / 10),
       append_Paragraph L ''SUMMARY'' ''Heading2'',
       (\<lambda>s. append_Paragraph L (ResumeProfile.summary (profile s)) ''Normal'' s),
       append_Spacer_Inches (1 / 10),
       append_Paragraph L ''KEY SKILLS'' ''Heading2'',
       (\<lambda>s. append_Paragraph L (join '', '' (skills (profile s))) ''Normal'' s),
       append_Spacer_Inches (1 / 10),
       append_Paragraph L ''EXPERIENCE'' ''Heading2'',
       (\<lambda>s. steps (map (assets_experience L) (experience (profile s))) s)]"

subsection \<open>The office-document library of the DOCX renderer\<close>

datatype WD_ALIGN_PARAGRAPH = LEFT | CENTER | RIGHT | JUSTIFY

record run =
  run_text :: string
  bold :: bool
  italic :: bool
  font_size :: "nat option"

record docx_paragraph =
  runs :: "run list"
  style :: string
  alignment :: "WD_ALIGN_PARAGRAPH option"

text \<open>
  The library is outside the program. Giving a run its text raises on text that cannot
  be stored in the document; \<^verbatim>\<open>document.save\<close> writes the bytes of the buffer, or
  raises; opening a byte stream gives the texts of the paragraphs of the document, or
  raises.
\<close>

record docx_library =
  text_raises :: "string \<Rightarrow> exn option"
  save :: "docx_paragraph list \<Rightarrow> exn + string"
  load_paragraphs :: "string \<Rightarrow> exn + string list"


definition plain_run :: "string \<Rightarrow> run" where
  "plain_run t = \<lparr>run_text = t, bold = False, italic = False, font_size = None\<rparr>"

definition document_add :: "docx_paragraph \<Rightarrow> docx_paragraph list frame \<Rightarrow> docx_paragraph list frame" where
  "document_add p s = s\<lparr>doc := doc s @ [p]\<rparr>"

text \<open>A change to the paragraph added last, the one the statement at hand holds.\<close>

definition last_paragraph ::
  "(docx_paragraph \<Rightarrow> docx_paragraph) \<Rightarrow> docx_paragraph list frame \<Rightarrow> docx_paragraph list frame" where
  "last_paragraph f s = (if doc s = [] then s else s\<lparr>doc := butlast (doc s) @ [f (last (doc s))]\<rparr>)"

text \<open>
  \<^verbatim>\<open>document.add_paragraph(text, style)\<close>: the text, when not empty, becomes one run of
  the new paragraph.
\<close>

definition add_paragraph ::
  "docx_library \<Rightarrow> string \<Rightarrow> string \<Rightarrow> docx_paragraph list frame
     \<Rightarrow> (exn \<times> docx_paragraph list frame) + docx_paragraph list frame" where
  "add_paragraph L t st s =
     (case (if t = [] then None else text_raises L t) of
        Some e \<Rightarrow> Inl (e, s)
      | None \<Rightarrow>
          Inr (document_add
                \<lparr>runs = (if t = [] then [] else [plain_run t]), style = st, alignment = None\<rparr> s))"

text \<open>\<^verbatim>\<open>document.add_heading(text, level)\<close>: a paragraph in the heading style of the level.\<close>

definition add_heading ::
  "docx_library \<Rightarrow> string \<Rightarrow> nat \<Rightarrow> docx_paragraph list frame
     \<Rightarrow> (exn \<times> docx_paragraph list frame) + docx_paragraph list frame" where
  "add_heading L t level = add_paragraph L t (''Heading '' @ [char_of (48 + level)])"

text \<open>\<^verbatim>\<open>p.add_run(text)\<close> on the paragraph added last, with the formatting the statement sets.\<close>

definition add_run ::
  "docx_library \<Rightarrow> run \<Rightarrow> docx_paragraph list frame
     \<Rightarrow> (exn \<times> docx_paragraph list frame) + docx_paragraph list frame" where
  "add_run L r s =
     (case text_raises L (run_text r) of
        Some e \<Rightarrow> Inl (e, s)
      | None \<Rightarrow> Inr (last_paragraph (\<lambda>p. p\<lparr>runs := runs p @ [r]\<rparr>) s))"

subsection \<open>DOCX (app.py lines 119-147)\<close>

definition docx_line ::
  "docx_library \<Rightarrow> string \<Rightarrow> docx_paragraph list frame
     \<Rightarrow> (exn \<times> docx_paragraph list frame) + docx_paragraph list frame" where
  "docx_line L line s =
     (let clean_line = strip line
      in if clean_line \<noteq> [] then add_paragraph L clean_line ''List Bullet'' s else Inr s)"

definition docx_experience ::
  "docx_library \<Rightarrow> WorkExperience \<Rightarrow> docx_paragraph list frame
     \<Rightarrow> (exn \<times> docx_paragraph list frame) + docx_paragraph list frame" where
  "docx_experience L ex =
     steps [
       add_paragraph L [] ''Normal'',
       add_run L ((plain_run (title ex))\<lparr>bold := True\<rparr>),
       add_run L ((plain_run ('' | '' @ company ex @ '' ('' @ years ex @ '')''))\<lparr>italic := True\<rparr>),
       steps (map (docx_line L) (split_lines [] (WorkExperience.summary ex)))]"


definition generate_docx_v2_run ::
  "docx_library \<Rightarrow> docx_paragraph list frame
     \<Rightarrow> (exn \<times> docx_paragraph list frame) + docx_paragraph list frame" where
  "generate_docx_v2_run L =
     steps [
       add_paragraph L [] ''Normal'',
       (\<lambda>s. add_run L ((plain_run (upper (name (profile s))))\<lparr>bold := True, font_size := Some 18\<rparr>) s),
       completes (last_paragraph (\<lambda>p. p\<lparr>alignment := Some CENTER\<rparr>)),
       (\<lambda>s. add_paragraph L (email (profile s)) ''Normal'' s),
       completes (last_paragraph (\<lambda>p. p\<lparr>alignment := Some CENTER\<rparr>)),
       add_paragraph L [] ''Normal'',
       add_run L ((plain_run (concat (replicate 50 em_dash)))\<lparr>font_size := Some 8\<rparr>),
       add_heading L ''SUMMARY'' 2,
       (\<lambda>s. add_paragraph L (strip (ResumeProfile.summary (profile s))) ''Normal'' s),
       add_heading L ''KEY SKILLS'' 2,
       (\<lambda>s. add_paragraph L (join '', '' (skills (profile s))) ''Normal'' s),
       add_heading L ''EXPERIENCE'' 2,
       (\<lambda>s. steps (map (docx_experience L) (experience (profile s))) s)]"


subsection \<open>What the renderers need of the libraries\<close>











subsection \<open>An instance of the contracts\<close>







section \<open>Persistence placeholders (db_interface.py)\<close>

text \<open>
  What the process holds: the module's \<^verbatim>\<open>supabase\<close> client (\<open>None\<close> when it was not
  initialised), the lines printed so far, and the records the calling flow keeps in
  memory.
\<close>

datatype Client = Client string string

datatype printed = Print string | Print_exn string exn

record 'm process =
  supabase :: "Client option"
  stdout :: "printed list"
  memory :: 'm

text \<open>Truth value of what \<^verbatim>\<open>os.getenv\<close> returns: \<^verbatim>\<open>None\<close> and the empty string are false.\<close>

definition env_set :: "string option \<Rightarrow> bool" where
  "env_set v = (case v of None \<Rightarrow> False | Some x \<Rightarrow> x \<noteq> [])"

text \<open>
  Loading the module (lines 11-25). \<open>create_client\<close> is the client library's
  constructor, which returns a client or raises.
\<close>

definition db_interface_load ::
  "string option \<Rightarrow> string option \<Rightarrow> (string \<Rightarrow> string \<Rightarrow> exn + Client) \<Rightarrow> 'm \<Rightarrow> 'm process" where
  "db_interface_load SUPABASE_URL SUPABASE_SERVICE_KEY create_client m =
     (if env_set SUPABASE_URL \<and> env_set SUPABASE_SERVICE_KEY then
        (case create_client (the SUPABASE_URL) (the SUPABASE_SERVICE_KEY) of
           Inr c \<Rightarrow> \<lparr>supabase = Some c, stdout = [], memory = m\<rparr>
         | Inl e \<Rightarrow> \<lparr>supabase = None, stdout = [Print_exn ''Error initializing Supabase client: '' e],
                      memory = m\<rparr>)
      else \<lparr>supabase = None,
             stdout = [Print ''Warning: Supabase credentials not found. Database functions will be disabled.''],
             memory = m\<rparr>)"

definition save_user_profile :: "'m process \<Rightarrow> string \<Rightarrow> (string \<times> json) list \<Rightarrow> bool \<times> 'm process" where
  "save_user_profile s user_id profile_json =
     (if supabase s = None then (False, s)
      else (True, s\<lparr>stdout := stdout s @ [Print (''Database simulation: Profile for '' @ user_id @ '' saved.'')]\<rparr>))"

definition save_user_alert_preferences :: "'m process \<Rightarrow> string \<Rightarrow> string \<Rightarrow> string \<Rightarrow> bool \<times> 'm process" where
  "save_user_alert_preferences s user_id keywords frequency =
     (if supabase s = None then (False, s)
      else (True, s\<lparr>stdout := stdout s @ [Print (''Database simulation: Alerts for '' @ user_id @ '' saved.'')]\<rparr>))"

section \<open>Job alerts by email (alert_sender.py)\<close>

text \<open>
  A job is a dictionary; its values are represented by the text Python's formatting gives
  them. \<^verbatim>\<open>job['title']\<close> on a dictionary without the key raises \<^verbatim>\<open>KeyError\<close>.
\<close>

type_synonym job = "(string \<times> string) list"

definition getitem :: "job \<Rightarrow> string \<Rightarrow> exn + string" where
  "getitem j k = (case map_of j k of None \<Rightarrow> Inl (KeyError k) | Some v \<Rightarrow> Inr v)"

definition nl :: string where
  "nl = [CHR 0x0A]"

definition dq :: string where
  "dq = [CHR 0x22]"

definition sq :: string where
  "sq = [CHR 0x27]"

definition job_html :: "job \<Rightarrow> exn + string" where
  "job_html j =
     bind_exn (getitem j ''title'') (\<lambda>title.
     bind_exn (getitem j ''company_name'') (\<lambda>company_name.
     bind_exn (getitem j ''match_score'') (\<lambda>match_score.
     bind_exn (getitem j ''perfect_fit_reason'') (\<lambda>perfect_fit_reason.
     bind_exn (getitem j ''source_url'') (\<lambda>source_url.
       Inr (nl @ ''        <div style='' @ dq
              @ ''border: 1px solid #ddd; padding: 15px; margin-bottom: 20px; border-radius: 8px;''
              @ dq @ ''>'' @ nl
            @ ''            <h3 style='' @ dq @ ''color: #007bff; margin-top: 0;'' @ dq @ ''>''
              @ title @ '' at '' @ company_name @ ''</h3>'' @ nl
            @ ''            <p style='' @ dq @ ''font-weight: bold;'' @ dq @ ''>Match Score: ''
              @ match_score @ ''%</p>'' @ nl
            @ ''            <p><b>Why It'' @ sq @ ''s a Fit:</b> '' @ perfect_fit_reason @ ''</p>'' @ nl
            @ ''            <p><a href='' @ dq @ source_url @ dq @ '' style='' @ dq
              @ ''background-color: #28a745; color: white; padding: 10px 15px; text-decoration: none; border-radius: 5px;''
              @ dq @ ''>Apply Now</a></p>'' @ nl
            @ ''        </div>'' @ nl
            @ ''        ''))))))"

fun format_jobs_loop :: "string \<Rightarrow> job list \<Rightarrow> exn + string" where
  "format_jobs_loop html_content [] = Inr html_content"
| "format_jobs_loop html_content (j # js) =
     (case job_html j of
        Inl e \<Rightarrow> Inl e
      | Inr h \<Rightarrow> format_jobs_loop (html_content @ h) js)"

definition format_jobs_for_email :: "job list \<Rightarrow> exn + string" where
  "format_jobs_for_email top_jobs =
     format_jobs_loop ''<h2>Your Personalized Job Alerts Are Ready!</h2>'' top_jobs"

text \<open>
  The email library is outside the program: its client constructor and its send call
  each return or raise.
\<close>

record email =
  email_from :: string
  email_to :: string
  subject :: string
  html :: string

record 'c resend_sdk =
  Resend :: "string \<Rightarrow> exn + 'c"
  emails_send :: "'c \<Rightarrow> email \<Rightarrow> exn + unit"

text \<open>\<^verbatim>\<open>try: body except Exception as e: handler(e)\<close>.\<close>

definition try_except :: "exn + 'a \<Rightarrow> (exn \<Rightarrow> exn + 'a) \<Rightarrow> exn + 'a" where
  "try_except body handler = (case body of Inl e \<Rightarrow> handler e | Inr x \<Rightarrow> Inr x)"

text \<open>
  \<^verbatim>\<open>send_job_alert_email\<close> (lines 26-51): the value returned, or the exception that
  leaves the function, together with the lines printed.
\<close>

definition send_job_alert_email ::
  "string option \<Rightarrow> 'c resend_sdk \<Rightarrow> string \<Rightarrow> job list \<Rightarrow> exn + bool \<times> printed list" where
  "send_job_alert_email RESEND_API_KEY sdk recipient_email top_jobs =
     (if \<not> env_set RESEND_API_KEY
      then Inr (False, [Print ''Resend API Key is missing. Email skipped.''])
      else
        try_except
          (bind_exn (Resend sdk (the RESEND_API_KEY)) (\<lambda>resend_client.
           bind_exn (format_jobs_for_email top_jobs) (\<lambda>email_html.
           bind_exn (emails_send sdk resend_client
                       \<lparr>email_from = ''alerts@yourdomain.com'', email_to = recipient_email,
                        subject = [CHR 0xF0, CHR 0x9F, CHR 0x8E, CHR 0xAF]
                          @ '' Your Top 3 Personalized Job Matches from PortfolioAI!'',
                        html = email_html\<rparr>) (\<lambda>_.
           Inr (True, [Print (''Successfully sent job alert to '' @ recipient_email)])))))
          (\<lambda>e. Inr (False, [Print_exn ''Resend email failure: '' e])))"

section \<open>The end-to-end scenario\<close>


section \<open>Validation of extracted payloads\<close>

subsection \<open>Auxiliary facts about the validators\<close>

lemma list_items_str: "list_items i str_validator (map JStr xs) = Inr xs"
  by (induction xs arbitrary: i) (simp_all add: str_validator_def Let_def)

lemma list_items_all2:
  "list_all2 (\<lambda>j x. v j = Inr x) js xs \<Longrightarrow> list_items i v js = Inr xs"
  by (induction js xs arbitrary: i rule: list_all2_induct) (simp_all add: Let_def)

lemma list_items_fail:
  "j \<in> set js \<Longrightarrow> isl (v j) \<Longrightarrow> isl (list_items i v js)"
  by (induction js arbitrary: i) (auto simp: Let_def)

lemma field_present: "map_of kw k = Some x \<Longrightarrow> v x = Inr y \<Longrightarrow> field kw k v = Inr y"
  by (simp add: field_def)

lemma field_missing: "map_of kw k = None \<Longrightarrow> isl (field kw k v)"
  by (simp add: field_def)

lemma field_invalid: "map_of kw k = Some x \<Longrightarrow> isl (v x) \<Longrightarrow> isl (field kw k v)"
  by (auto simp: field_def split: sum.splits)

lemma ResumeProfile_init_ok:
  assumes "map_of kw ''name'' = Some (JStr n)"
    and "map_of kw ''email'' = Some (JStr e)"
    and "map_of kw ''summary'' = Some (JStr s)"
    and "map_of kw ''skills'' = Some (JArr (map JStr sk))"
    and "map_of kw ''experience'' = Some (JArr js)"
    and "list_all2 (\<lambda>j x. WorkExperience_validator j = Inr x) js xs"
  shows "ResumeProfile_init kw = Inr \<lparr>name = n, email = e, summary = s, skills = sk, experience = xs\<rparr>"
proof -
  have n: "field kw ''name'' str_validator = Inr n"
    using assms(1) by (simp add: field_present str_validator_def)
  have e: "field kw ''email'' str_validator = Inr e"
    using assms(2) by (simp add: field_present str_validator_def)
  have s: "field kw ''summary'' str_validator = Inr s"
    using assms(3) by (simp add: field_present str_validator_def)
  have k: "field kw ''skills'' (list_validator str_validator) = Inr sk"
    using assms(4) by (simp add: field_present list_validator_def list_items_str)
  have x: "field kw ''experience'' (list_validator WorkExperience_validator) = Inr xs"
    using assms(5) list_items_all2 [OF assms(6)] by (simp add: field_present list_validator_def)
  show ?thesis
    unfolding ResumeProfile_init_def n e s k x by (simp add: Let_def)
qed

lemma ResumeProfile_init_missing:
  assumes "k \<in> set [''name'', ''email'', ''summary'', ''skills'', ''experience'']"
    and "map_of kw k = None"
  shows "isl (ResumeProfile_init kw)"
proof -
  have "isl (field kw ''name'' str_validator) \<or> isl (field kw ''email'' str_validator)
      \<or> isl (field kw ''summary'' str_validator) \<or> isl (field kw ''skills'' (list_validator str_validator))
      \<or> isl (field kw ''experience'' (list_validator WorkExperience_validator))"
    using assms by (auto simp: field_missing)
  then show ?thesis
    unfolding ResumeProfile_init_def Let_def by (simp only: if_P sum.disc)
qed

lemma WorkExperience_init_missing:
  assumes "k \<in> set [''title'', ''company'', ''years'', ''summary'']"
    and "map_of d k = None"
  shows "isl (WorkExperience_init d)"
proof -
  have "isl (field d ''title'' str_validator) \<or> isl (field d ''company'' str_validator)
      \<or> isl (field d ''years'' str_validator) \<or> isl (field d ''summary'' str_validator)"
    using assms by (auto simp: field_missing)
  then show ?thesis
    unfolding WorkExperience_init_def Let_def by (simp only: if_P sum.disc)
qed

lemma ResumeProfile_init_nested_missing:
  assumes "map_of kw ''experience'' = Some (JArr js)"
    and "JObj d \<in> set js"
    and "k \<in> set [''title'', ''company'', ''years'', ''summary'']"
    and "map_of d k = None"
  shows "isl (ResumeProfile_init kw)"
proof -
  have "isl (WorkExperience_validator (JObj d))"
    using WorkExperience_init_missing [OF assms(3,4)] by (simp add: WorkExperience_validator_def)
  then have "isl (list_items 0 WorkExperience_validator js)"
    using assms(2) list_items_fail by blast
  then have "isl (field kw ''experience'' (list_validator WorkExperience_validator))"
    using assms(1) by (simp add: field_invalid list_validator_def)
  then show ?thesis
    unfolding ResumeProfile_init_def Let_def by (simp only: if_P sum.disc simp_thms)
qed

lemma parse_invalid:
  "isl (ResumeProfile_init kw) \<Longrightarrow>
   fst (parse_resume_to_json client (Inr (Response (Inr (JObj kw))))) = None"
  by (auto simp: parse_resume_to_json_def bind_exn_def json_loads_text_def ResumeProfile_unpack_def
      split: sum.splits)

lemma parse_valid:
  "ResumeProfile_init kw = Inr p \<Longrightarrow>
   parse_resume_to_json True (Inr (Response (Inr (JObj kw)))) = (Some p, [])"
  by (simp add: parse_resume_to_json_def bind_exn_def json_loads_text_def ResumeProfile_unpack_def)

subsection \<open>The match score\<close>

text \<open>
  Claim C1, as the code has it: no bound on \<^verbatim>\<open>match_score\<close> is enforced. The schema
  declares the field as a plain integer and \<^verbatim>\<open>generate_optimization_report\<close> returns
  the decoded payload without validating it, so every integer score, in the range 0 to 100
  or outside it, is accepted by the model class, returned by the function and handed to
  the score widget unchanged: nothing is rejected and nothing is clamped.
\<close>

theorem optimization_match_score_unbounded:
  "OptimizationReport_init
     [(''match_score'', JInt n), (''keyword_gaps'', JArr (map JStr g)), (''suggestions'', JArr (map JStr s))]
     = Inr \<lparr>match_score = n, keyword_gaps = g, suggestions = s\<rparr>
   \<and> generate_optimization_report True
       (Inr (Response (Inr (JObj [(''match_score'', JInt n), (''keyword_gaps'', JArr (map JStr g)),
                                  (''suggestions'', JArr (map JStr s))]))))
     = (JObj [(''match_score'', JInt n), (''keyword_gaps'', JArr (map JStr g)),
              (''suggestions'', JArr (map JStr s))], [])
   \<and> analyze_profile_button
       (JObj [(''match_score'', JInt n), (''keyword_gaps'', JArr (map JStr g)),
              (''suggestions'', JArr (map JStr s))])
     = Inr (Some \<lparr>score = JInt n, gaps = JArr (map JStr g), suggestions_shown = JArr (map JStr s)\<rparr>)"
proof (intro conjI)
  show "OptimizationReport_init
     [(''match_score'', JInt n), (''keyword_gaps'', JArr (map JStr g)), (''suggestions'', JArr (map JStr s))]
     = Inr \<lparr>match_score = n, keyword_gaps = g, suggestions = s\<rparr>"
    by (simp add: OptimizationReport_init_def field_def int_validator_def list_validator_def
        list_items_str Let_def)
next
  show "generate_optimization_report True
       (Inr (Response (Inr (JObj [(''match_score'', JInt n), (''keyword_gaps'', JArr (map JStr g)),
                                  (''suggestions'', JArr (map JStr s))]))))
     = (JObj [(''match_score'', JInt n), (''keyword_gaps'', JArr (map JStr g)),
              (''suggestions'', JArr (map JStr s))], [])"
    by (simp add: generate_optimization_report_def bind_exn_def json_loads_text_def)
next
  show "analyze_profile_button
       (JObj [(''match_score'', JInt n), (''keyword_gaps'', JArr (map JStr g)),
              (''suggestions'', JArr (map JStr s))])
     = Inr (Some \<lparr>score = JInt n, gaps = JArr (map JStr g), suggestions_shown = JArr (map JStr s)\<rparr>)"
    by (simp add: analyze_profile_button_def dict_get_def)
qed

text \<open>
  The claim as written asks for the scores 101 and -1 to be validation failures. Both are
  accepted by the model class and returned by \<^verbatim>\<open>generate_optimization_report\<close>.
\<close>

theorem match_score_bound_counterexample:
  "OptimizationReport_init
     [(''match_score'', JInt 101), (''keyword_gaps'', JArr [JStr ''SQL'']), (''suggestions'', JArr [JStr ''Add SQL''])]
     = Inr \<lparr>match_score = 101, keyword_gaps = [''SQL''], suggestions = [''Add SQL'']\<rparr>
   \<and> OptimizationReport_init
     [(''match_score'', JInt (- 1)), (''keyword_gaps'', JArr [JStr ''SQL'']), (''suggestions'', JArr [JStr ''Add SQL''])]
     = Inr \<lparr>match_score = - 1, keyword_gaps = [''SQL''], suggestions = [''Add SQL'']\<rparr>
   \<and> fst (generate_optimization_report True
       (Inr (Response (Inr (JObj [(''match_score'', JInt 101), (''keyword_gaps'', JArr [JStr ''SQL'']),
                                  (''suggestions'', JArr [JStr ''Add SQL''])])))))
     = JObj [(''match_score'', JInt 101), (''keyword_gaps'', JArr [JStr ''SQL'']),
             (''suggestions'', JArr [JStr ''Add SQL''])]
   \<and> fst (generate_optimization_report True
       (Inr (Response (Inr (JObj [(''match_score'', JInt (- 1)), (''keyword_gaps'', JArr [JStr ''SQL'']),
                                  (''suggestions'', JArr [JStr ''Add SQL''])])))))
     = JObj [(''match_score'', JInt (- 1)), (''keyword_gaps'', JArr [JStr ''SQL'']),
             (''suggestions'', JArr [JStr ''Add SQL''])]"
  by (simp add: OptimizationReport_init_def field_def int_validator_def list_validator_def
      str_validator_def errs_def Let_def generate_optimization_report_def bind_exn_def json_loads_text_def)

subsection \<open>Missing required fields\<close>

text \<open>
  Claim C2, as the code has it. A Profile payload that misses a required field, at the
  top level or in one of its experience entries, fails validation and
  \<^verbatim>\<open>parse_resume_to_json\<close> returns no record. An Optimization payload is not
  validated: a decoded dictionary that is not empty is returned as it is, and the analysis
  handler reads \<^verbatim>\<open>match_score\<close>, \<^verbatim>\<open>keyword_gaps\<close> and \<^verbatim>\<open>suggestions\<close> with
  the defaults 0, ["N/A"] and ["N/A"] where they are missing.
\<close>

theorem missing_required_field:
  "(k \<in> set [''name'', ''email'', ''summary'', ''skills'', ''experience''] \<and> map_of kw k = None
      \<longrightarrow> isl (ResumeProfile_init kw)
        \<and> fst (parse_resume_to_json client (Inr (Response (Inr (JObj kw))))) = None)
   \<and> (map_of kw ''experience'' = Some (JArr js) \<and> JObj x \<in> set js
        \<and> k \<in> set [''title'', ''company'', ''years'', ''summary''] \<and> map_of x k = None
      \<longrightarrow> isl (ResumeProfile_init kw)
        \<and> fst (parse_resume_to_json client (Inr (Response (Inr (JObj kw))))) = None)
   \<and> (d \<noteq> []
      \<longrightarrow> generate_optimization_report True (Inr (Response (Inr (JObj d)))) = (JObj d, [])
        \<and> analyze_profile_button (JObj d)
            = Inr (Some \<lparr>score = (case map_of d ''match_score'' of None \<Rightarrow> JInt 0 | Some v \<Rightarrow> v),
                          gaps = (case map_of d ''keyword_gaps'' of None \<Rightarrow> JArr [JStr ''N/A''] | Some v \<Rightarrow> v),
                          suggestions_shown =
                            (case map_of d ''suggestions'' of None \<Rightarrow> JArr [JStr ''N/A''] | Some v \<Rightarrow> v)\<rparr>))"
proof (intro conjI impI)
  assume a: "k \<in> set [''name'', ''email'', ''summary'', ''skills'', ''experience''] \<and> map_of kw k = None"
  then show i: "isl (ResumeProfile_init kw)"
    using ResumeProfile_init_missing by blast
  show "fst (parse_resume_to_json client (Inr (Response (Inr (JObj kw))))) = None"
    using i by (rule parse_invalid)
next
  assume a: "map_of kw ''experience'' = Some (JArr js) \<and> JObj x \<in> set js
        \<and> k \<in> set [''title'', ''company'', ''years'', ''summary''] \<and> map_of x k = None"
  then show i: "isl (ResumeProfile_init kw)"
    using ResumeProfile_init_nested_missing by blast
  show "fst (parse_resume_to_json client (Inr (Response (Inr (JObj kw))))) = None"
    using i by (rule parse_invalid)
next
  assume "d \<noteq> []"
  show "generate_optimization_report True (Inr (Response (Inr (JObj d)))) = (JObj d, [])"
    by (simp add: generate_optimization_report_def bind_exn_def json_loads_text_def)
next
  assume "d \<noteq> []"
  then show "analyze_profile_button (JObj d)
            = Inr (Some \<lparr>score = (case map_of d ''match_score'' of None \<Rightarrow> JInt 0 | Some v \<Rightarrow> v),
                          gaps = (case map_of d ''keyword_gaps'' of None \<Rightarrow> JArr [JStr ''N/A''] | Some v \<Rightarrow> v),
                          suggestions_shown =
                            (case map_of d ''suggestions'' of None \<Rightarrow> JArr [JStr ''N/A''] | Some v \<Rightarrow> v)\<rparr>)"
    by (simp add: analyze_profile_button_def dict_get_def)
qed

text \<open>
  The theorem at payloads without \<^verbatim>\<open>email\<close>, without the \<^verbatim>\<open>company\<close> of an
  experience entry, and at an Optimization payload without \<^verbatim>\<open>match_score\<close>.
\<close>

theorem missing_required_field_witness:
  "fst (parse_resume_to_json True (Inr (Response (Inr (JObj
        [(''name'', JStr ''Alice Smith''), (''summary'', JStr ''Engineer.''),
         (''skills'', JArr [JStr ''Python'']),
         (''experience'', JArr [JObj [(''title'', JStr ''Software Engineer''),
                                      (''years'', JStr ''2015-2025''),
                                      (''summary'', JStr ''built distributed systems'')]])]))))) = None
   \<and> fst (parse_resume_to_json True (Inr (Response (Inr (JObj
        [(''name'', JStr ''Alice Smith''), (''email'', JStr ''alice@x.com''),
         (''summary'', JStr ''Engineer.''), (''skills'', JArr [JStr ''Python'']),
         (''experience'', JArr [JObj [(''title'', JStr ''Software Engineer''),
                                      (''years'', JStr ''2015-2025''),
                                      (''summary'', JStr ''built distributed systems'')]])]))))) = None
   \<and> analyze_profile_button (JObj [(''keyword_gaps'', JArr [JStr ''SQL''])])
       = Inr (Some \<lparr>score = JInt 0, gaps = JArr [JStr ''SQL''], suggestions_shown = JArr [JStr ''N/A'']\<rparr>)"
proof (intro conjI)
  show "fst (parse_resume_to_json True (Inr (Response (Inr (JObj
        [(''name'', JStr ''Alice Smith''), (''summary'', JStr ''Engineer.''),
         (''skills'', JArr [JStr ''Python'']),
         (''experience'', JArr [JObj [(''title'', JStr ''Software Engineer''),
                                      (''years'', JStr ''2015-2025''),
                                      (''summary'', JStr ''built distributed systems'')]])]))))) = None"
    using missing_required_field
      [of "''email''" "[(''name'', JStr ''Alice Smith''), (''summary'', JStr ''Engineer.''),
         (''skills'', JArr [JStr ''Python'']),
         (''experience'', JArr [JObj [(''title'', JStr ''Software Engineer''),
                                      (''years'', JStr ''2015-2025''),
                                      (''summary'', JStr ''built distributed systems'')]])]" True]
    by simp
next
  show "fst (parse_resume_to_json True (Inr (Response (Inr (JObj
        [(''name'', JStr ''Alice Smith''), (''email'', JStr ''alice@x.com''),
         (''summary'', JStr ''Engineer.''), (''skills'', JArr [JStr ''Python'']),
         (''experience'', JArr [JObj [(''title'', JStr ''Software Engineer''),
                                      (''years'', JStr ''2015-2025''),
                                      (''summary'', JStr ''built distributed systems'')]])]))))) = None"
    using missing_required_field
      [of "''company''" "[(''name'', JStr ''Alice Smith''), (''email'', JStr ''alice@x.com''),
         (''summary'', JStr ''Engineer.''), (''skills'', JArr [JStr ''Python'']),
         (''experience'', JArr [JObj [(''title'', JStr ''Software Engineer''),
                                      (''years'', JStr ''2015-2025''),
                                      (''summary'', JStr ''built distributed systems'')]])]" True
          "[JObj [(''title'', JStr ''Software Engineer''),
                                      (''years'', JStr ''2015-2025''),
                                      (''summary'', JStr ''built distributed systems'')]]"
          "[(''title'', JStr ''Software Engineer''),
                                      (''years'', JStr ''2015-2025''),
                                      (''summary'', JStr ''built distributed systems'')]"]
    by simp
next
  show "analyze_profile_button (JObj [(''keyword_gaps'', JArr [JStr ''SQL''])])
       = Inr (Some \<lparr>score = JInt 0, gaps = JArr [JStr ''SQL''], suggestions_shown = JArr [JStr ''N/A'']\<rparr>)"
    using missing_required_field [of _ _ _ _ _ "[(''keyword_gaps'', JArr [JStr ''SQL''])]"]
    by simp
qed

text \<open>
  The claim as written fails on an Optimization payload without \<^verbatim>\<open>match_score\<close>:
  the payload is returned to the handler, which shows the default score 0.
\<close>

theorem missing_field_counterexample:
  "generate_optimization_report True
     (Inr (Response (Inr (JObj [(''keyword_gaps'', JArr [JStr ''SQL'']),
                                (''suggestions'', JArr [JStr ''Add SQL''])]))))
     = (JObj [(''keyword_gaps'', JArr [JStr ''SQL'']), (''suggestions'', JArr [JStr ''Add SQL''])], [])
   \<and> analyze_profile_button
        (JObj [(''keyword_gaps'', JArr [JStr ''SQL'']), (''suggestions'', JArr [JStr ''Add SQL''])])
     = Inr (Some \<lparr>score = JInt 0, gaps = JArr [JStr ''SQL''],
                   suggestions_shown = JArr [JStr ''Add SQL'']\<rparr>)"
  by (simp add: generate_optimization_report_def bind_exn_def json_loads_text_def
      analyze_profile_button_def dict_get_def)

text \<open>
  The defaults a schema states itself are applied by validation: an interview session
  built without \<^verbatim>\<open>status\<close> and \<^verbatim>\<open>history\<close> has the status \<^verbatim>\<open>ready\<close> and an
  empty history.
\<close>

lemma interview_status_default:
  assumes "map_of kw ''role'' = Some (JStr r)"
    and "map_of kw ''type'' = Some (JStr t)"
    and "map_of kw ''status'' = None"
    and "map_of kw ''history'' = None"
  shows "InterviewSettings_init kw = Inr \<lparr>role = r, type = t, status = ''ready'', history = []\<rparr>"
  using assms
  by (simp add: InterviewSettings_init_def field_def field_default_def str_validator_def Let_def)

subsection \<open>A failed call to the service\<close>

text \<open>
  Claim C4: when the call to the generative service raises, \<^verbatim>\<open>parse_resume_to_json\<close>
  shows the parsing error and returns \<^verbatim>\<open>None\<close>; no record, partial or whole, is
  returned.
\<close>

theorem parse_resume_call_failure:
  "parse_resume_to_json True (Inl e) = (None, [St_error_exn ''AI Parsing Error: '' e])
   \<and> fst (parse_resume_to_json client (Inl e)) = None"
  by (simp add: parse_resume_to_json_def bind_exn_def)

subsection \<open>Size of the skills list\<close>

text \<open>
  Claim C5: a Profile payload whose skills are a list of three strings, with every other
  required field present and of its type, validates: the requested 8 to 12 skills are
  guidance to the extractor, and the record returned carries the three skills.
\<close>

theorem skills_of_length_three_validate:
  assumes "map_of kw ''name'' = Some (JStr n)"
    and "map_of kw ''email'' = Some (JStr e)"
    and "map_of kw ''summary'' = Some (JStr s)"
    and "map_of kw ''skills'' = Some (JArr (map JStr sk))"
    and "length sk = 3"
    and "map_of kw ''experience'' = Some (JArr js)"
    and "list_all2 (\<lambda>j x. WorkExperience_validator j = Inr x) js xs"
  shows "ResumeProfile_init kw = Inr \<lparr>name = n, email = e, summary = s, skills = sk, experience = xs\<rparr>
    \<and> parse_resume_to_json True (Inr (Response (Inr (JObj kw))))
        = (Some \<lparr>name = n, email = e, summary = s, skills = sk, experience = xs\<rparr>, [])"
  using ResumeProfile_init_ok [OF assms(1-4) assms(6,7)] by (simp add: parse_valid)

text \<open>The theorem at a payload with the skills Python, SQL and Go.\<close>

theorem skills_of_length_three_validate_witness:
  "parse_resume_to_json True
     (Inr (Response (Inr (JObj
        [(''name'', JStr ''Alice Smith''), (''email'', JStr ''alice@x.com''),
         (''summary'', JStr ''Engineer.''),
         (''skills'', JArr [JStr ''Python'', JStr ''SQL'', JStr ''Go'']),
         (''experience'', JArr [JObj [(''title'', JStr ''Software Engineer''), (''company'', JStr ''Acme''),
                                      (''years'', JStr ''2015-2025''),
                                      (''summary'', JStr ''built distributed systems'')]])]))))
   = (Some \<lparr>name = ''Alice Smith'', email = ''alice@x.com'', summary = ''Engineer.'',
             skills = [''Python'', ''SQL'', ''Go''],
             experience = [\<lparr>title = ''Software Engineer'', company = ''Acme'', years = ''2015-2025'',
                            summary = ''built distributed systems''\<rparr>]\<rparr>, [])"
proof -
  have x: "list_all2 (\<lambda>j x. WorkExperience_validator j = Inr x)
      [JObj [(''title'', JStr ''Software Engineer''), (''company'', JStr ''Acme''),
             (''years'', JStr ''2015-2025''), (''summary'', JStr ''built distributed systems'')]]
      [\<lparr>title = ''Software Engineer'', company = ''Acme'', years = ''2015-2025'',
        summary = ''built distributed systems''\<rparr>]"
    by (simp add: WorkExperience_validator_def WorkExperience_init_def field_def str_validator_def Let_def)
  show ?thesis
    using skills_of_length_three_validate
      [of "[(''name'', JStr ''Alice Smith''), (''email'', JStr ''alice@x.com''),
         (''summary'', JStr ''Engineer.''),
         (''skills'', JArr [JStr ''Python'', JStr ''SQL'', JStr ''Go'']),
         (''experience'', JArr [JObj [(''title'', JStr ''Software Engineer''), (''company'', JStr ''Acme''),
                                      (''years'', JStr ''2015-2025''),
                                      (''summary'', JStr ''built distributed systems'')]])]"
        "''Alice Smith''" "''alice@x.com''" "''Engineer.''" "[''Python'', ''SQL'', ''Go'']"
        "[JObj [(''title'', JStr ''Software Engineer''), (''company'', JStr ''Acme''),
             (''years'', JStr ''2015-2025''), (''summary'', JStr ''built distributed systems'')]]"
        "[\<lparr>title = ''Software Engineer'', company = ''Acme'', years = ''2015-2025'',
        summary = ''built distributed systems''\<rparr>]", OF _ _ _ _ _ _ x]
    by simp
qed



section \<open>Document renderers\<close>

subsection \<open>The profile of a frame is never written\<close>

lemma keeps_profileI:
  "(\<And>s e t. f s = Inl (e, t) \<Longrightarrow> profile t = profile s)
   \<Longrightarrow> (\<And>s t. f s = Inr t \<Longrightarrow> profile t = profile s) \<Longrightarrow> keeps_profile f"
  by (auto simp: keeps_profile_def split: sum.splits)

lemma keeps_profile_Inl: "keeps_profile f \<Longrightarrow> f s = Inl (e, t) \<Longrightarrow> profile t = profile s"
  by (auto simp: keeps_profile_def split: sum.splits dest: spec [of _ s])

lemma keeps_profile_Inr: "keeps_profile f \<Longrightarrow> f s = Inr t \<Longrightarrow> profile t = profile s"
  by (auto simp: keeps_profile_def split: sum.splits dest: spec [of _ s])

lemma keeps_steps: "list_all keeps_profile fs \<Longrightarrow> keeps_profile (steps fs)"
proof (induction fs)
  case Nil
  show ?case by (rule keeps_profileI) simp_all
next
  case (Cons f fs)
  then have f: "keeps_profile f" and fs: "keeps_profile (steps fs)" by simp_all
  show ?case
  proof (rule keeps_profileI)
    fix s e t assume "steps (f # fs) s = Inl (e, t)"
    then show "profile t = profile s"
      using keeps_profile_Inl [OF f] keeps_profile_Inr [OF f] keeps_profile_Inl [OF fs]
      by (auto split: sum.splits; metis)
  next
    fix s t assume "steps (f # fs) s = Inr t"
    then show "profile t = profile s"
      using keeps_profile_Inr [OF f] keeps_profile_Inr [OF fs]
      by (auto split: sum.splits; metis)
  qed
qed

lemma keeps_reading: "(\<And>x. keeps_profile (F x)) \<Longrightarrow> keeps_profile (\<lambda>s. F (h s) s)"
  by (simp add: keeps_profile_def)

lemma keeps_completes: "(\<And>s. profile (f s) = profile s) \<Longrightarrow> keeps_profile (completes f)"
  by (simp add: keeps_profile_def completes_def)

lemma profile_Story_append: "profile (Story_append f s) = profile s"
  by (simp add: Story_append_def)

lemma profile_document_add: "profile (document_add p s) = profile s"
  by (simp add: document_add_def)

lemma profile_last_paragraph: "profile (last_paragraph f s) = profile s"
  by (simp add: last_paragraph_def)

lemma keeps_append_Paragraph: "keeps_profile (append_Paragraph L t st)"
  by (simp add: keeps_profile_def append_Paragraph_def profile_Story_append split: option.splits)

lemma keeps_append_Spacer_Inches: "keeps_profile (append_Spacer_Inches x)"
  by (simp add: keeps_profile_def append_Spacer_Inches_def profile_Story_append split: sum.splits)

lemma keeps_add_paragraph: "keeps_profile (add_paragraph L t st)"
  by (simp add: keeps_profile_def add_paragraph_def profile_document_add split: option.splits)

lemma keeps_add_heading: "keeps_profile (add_heading L t n)"
  by (simp add: add_heading_def keeps_add_paragraph)

lemma keeps_add_run: "keeps_profile (add_run L r)"
  by (simp add: keeps_profile_def add_run_def profile_last_paragraph split: option.splits)

lemma keeps_append_Paragraph_reading: "keeps_profile (\<lambda>s. append_Paragraph L (h s) st s)"
  by (simp add: keeps_profile_def append_Paragraph_def profile_Story_append split: option.splits)

lemma keeps_add_paragraph_reading: "keeps_profile (\<lambda>s. add_paragraph L (h s) st s)"
  by (simp add: keeps_profile_def add_paragraph_def profile_document_add split: option.splits)

lemma keeps_add_run_reading: "keeps_profile (\<lambda>s. add_run L (h s) s)"
  by (simp add: keeps_profile_def add_run_def profile_last_paragraph split: option.splits)

lemma keeps_docx_line: "keeps_profile (docx_line L line)"
  using keeps_add_paragraph [of L "strip line" "''List Bullet''"]
  by (simp add: keeps_profile_def docx_line_def Let_def)

lemma keeps_loop: "(\<And>x. keeps_profile (F x)) \<Longrightarrow> keeps_profile (steps (map F xs))"
  by (rule keeps_steps) (simp add: list_all_iff)

lemma keeps_pdf_experience: "keeps_profile (pdf_experience L ex)"
  unfolding pdf_experience_def
  by (rule keeps_steps)
    (simp add: keeps_append_Paragraph keeps_completes profile_Story_append,
     simp add: keeps_profile_def profile_Story_append split: sum.splits)

lemma keeps_assets_experience: "keeps_profile (assets_experience L ex)"
  unfolding assets_experience_def
  by (rule keeps_steps)
    (simp add: keeps_append_Paragraph keeps_append_Spacer_Inches,
     simp add: keeps_profile_def profile_Story_append split: option.splits)

lemma keeps_docx_experience: "keeps_profile (docx_experience L ex)"
  unfolding docx_experience_def
  by (rule keeps_steps) (simp add: keeps_add_paragraph keeps_add_run keeps_loop keeps_docx_line)

lemma keeps_generate_pdf_v2_run: "keeps_profile (generate_pdf_v2_run L)"
  unfolding generate_pdf_v2_run_def
  by (rule keeps_steps)
    (simp add: keeps_append_Paragraph keeps_completes profile_Story_append
      keeps_append_Paragraph_reading
      keeps_reading [of "\<lambda>xs. steps (map (pdf_experience L) xs)"] keeps_loop keeps_pdf_experience)

lemma keeps_generate_pdf_run: "keeps_profile (generate_pdf_run L)"
  unfolding generate_pdf_run_def
  by (rule keeps_steps)
    (simp add: keeps_append_Paragraph keeps_append_Spacer_Inches
      keeps_append_Paragraph_reading
      keeps_reading [of "\<lambda>xs. steps (map (assets_experience L) xs)"] keeps_loop keeps_assets_experience)

lemma keeps_generate_docx_v2_run: "keeps_profile (generate_docx_v2_run L)"
  unfolding generate_docx_v2_run_def
  by (rule keeps_steps)
    (simp add: keeps_add_paragraph keeps_add_heading keeps_add_run keeps_completes profile_last_paragraph
      keeps_add_paragraph_reading keeps_add_run_reading
      keeps_reading [of "\<lambda>xs. steps (map (docx_experience L) xs)"] keeps_loop keeps_docx_experience)

text \<open>
  Claim C8: each renderer leaves the profile it is given unchanged. Whatever the libraries
  do and whatever the frame a renderer starts from, the frame it ends with, and the frame
  it leaves when one of its statements raises, hold the profile it started with, so every
  field (name, email, summary, skills, experience entries) keeps its value. This holds for
  the PDF and DOCX renderers of app.py and for the PDF renderer of document_assets.py.
\<close>

theorem renderers_leave_profile_unchanged:
  "(case generate_pdf_v2_run P s of
      Inl (e, s') \<Rightarrow> profile s' = profile s
    | Inr s' \<Rightarrow> profile s' = profile s)
   \<and> (case generate_docx_v2_run D t of
         Inl (e, t') \<Rightarrow> profile t' = profile t
       | Inr t' \<Rightarrow> profile t' = profile t)
   \<and> (case generate_pdf_run P s of
         Inl (e, s') \<Rightarrow> profile s' = profile s
       | Inr s' \<Rightarrow> profile s' = profile s)"
  using keeps_generate_pdf_v2_run [of P] keeps_generate_docx_v2_run [of D] keeps_generate_pdf_run [of P]
  by (simp add: keeps_profile_def)

text \<open>
  The PDF renderer of document_assets.py, once its first two paragraphs are accepted,
  stops at its first spacer.
\<close>

lemma generate_pdf_run_raises:
  assumes "Paragraph_raises L (name (profile s)) = None"
    and "Paragraph_raises L (email (profile s)) = None"
  shows "generate_pdf_run L s =
     Inl (TypeError,
          Story_append (Paragraph (email (profile s)) ''Italic'')
            (Story_append (Paragraph (name (profile s)) ''Heading1'') s))"
  using assms
  by (simp add: generate_pdf_run_def append_Paragraph_def append_Spacer_Inches_def
      float_times_Inches_def profile_Story_append)

subsection \<open>Plain text and words\<close>
























subsection \<open>The PDF renderer on a plain profile\<close>












subsection \<open>The DOCX renderer on a plain profile\<close>















subsection \<open>The instance keeps the contracts\<close>













subsection \<open>Text of the exported byte streams\<close>




section \<open>Persistence placeholders\<close>

text \<open>Without both credentials the module loads with no client.\<close>

lemma load_without_credentials:
  "\<not> (env_set url \<and> env_set key) \<Longrightarrow> supabase (db_interface_load url key create_client m) = None"
  by (auto simp: db_interface_load_def)

text \<open>
  Claim C6: with no client initialised, \<^verbatim>\<open>save_user_profile\<close> and
  \<^verbatim>\<open>save_user_alert_preferences\<close> return \<^verbatim>\<open>False\<close> for every input, raise nothing,
  and leave the process as it was: nothing is printed and the records in memory are
  untouched.
\<close>

theorem unconfigured_saves_return_false:
  assumes "supabase s = None"
  shows "save_user_profile s user_id profile_json = (False, s)
    \<and> save_user_alert_preferences s user_id keywords frequency = (False, s)"
  using assms by (simp add: save_user_profile_def save_user_alert_preferences_def)

text \<open>The theorem at a process without client that holds a profile in memory.\<close>

theorem unconfigured_saves_return_false_witness:
  "save_user_profile \<lparr>supabase = None, stdout = [], memory = [(''name'', JStr ''Alice Smith'')]\<rparr>
       ''user-1'' [(''name'', JStr ''Alice Smith'')]
     = (False, \<lparr>supabase = None, stdout = [], memory = [(''name'', JStr ''Alice Smith'')]\<rparr>)
   \<and> save_user_alert_preferences \<lparr>supabase = None, stdout = [], memory = [(''name'', JStr ''Alice Smith'')]\<rparr>
       ''user-1'' ''MLOps, NLP'' ''Weekly''
     = (False, \<lparr>supabase = None, stdout = [], memory = [(''name'', JStr ''Alice Smith'')]\<rparr>)"
  using unconfigured_saves_return_false
    [of "\<lparr>supabase = None, stdout = [], memory = [(''name'', JStr ''Alice Smith'')]\<rparr>"
        "''user-1''" "[(''name'', JStr ''Alice Smith'')]" "''MLOps, NLP''" "''Weekly''"]
  by simp

text \<open>
  Claim C10: the boolean the two functions return depends only on whether the client is
  initialised. Two calls in processes with the same client return the same boolean,
  whatever the user ids and payloads, and that boolean is \<^verbatim>\<open>True\<close> exactly when the
  client is initialised.
\<close>

theorem save_result_depends_on_configuration_only:
  assumes "supabase s1 = supabase s2"
  shows "fst (save_user_profile s1 u1 p1) = fst (save_user_profile s2 u2 p2)
    \<and> fst (save_user_alert_preferences s1 u1 k1 f1) = fst (save_user_alert_preferences s2 u2 k2 f2)
    \<and> fst (save_user_profile s1 u1 p1) = (supabase s1 \<noteq> None)
    \<and> fst (save_user_alert_preferences s1 u1 k1 f1) = (supabase s1 \<noteq> None)"
  using assms by (simp add: save_user_profile_def save_user_alert_preferences_def)

text \<open>The theorem at two processes with the same client and different arguments.\<close>

theorem save_result_depends_on_configuration_only_witness:
  "fst (save_user_profile \<lparr>supabase = Some (Client ''https://db'' ''key''), stdout = [], memory = ()\<rparr>
          ''user-1'' [(''name'', JStr ''Alice Smith'')])
     = fst (save_user_profile
          \<lparr>supabase = Some (Client ''https://db'' ''key''), stdout = [Print ''earlier''], memory = ()\<rparr>
          ''user-2'' [])
   \<and> fst (save_user_profile \<lparr>supabase = Some (Client ''https://db'' ''key''), stdout = [], memory = ()\<rparr>
          ''user-1'' [(''name'', JStr ''Alice Smith'')]) = True
   \<and> fst (save_user_alert_preferences \<lparr>supabase = Some (Client ''https://db'' ''key''), stdout = [], memory = ()\<rparr>
          ''user-1'' ''MLOps'' ''Daily'') = True"
  using save_result_depends_on_configuration_only
    [of "\<lparr>supabase = Some (Client ''https://db'' ''key''), stdout = [], memory = ()\<rparr>"
        "\<lparr>supabase = Some (Client ''https://db'' ''key''), stdout = [Print ''earlier''], memory = ()\<rparr>"
        "''user-1''" "[(''name'', JStr ''Alice Smith'')]" "''user-2''" "[]" "''MLOps''" "''Daily''"
        "''NLP''" "''Monthly''"]
  by auto

section \<open>Job alerts by email\<close>

text \<open>
  Claim C7: for every recipient and job list \<^verbatim>\<open>send_job_alert_email\<close> returns a
  boolean and no exception leaves it. When the API key is missing, or the client
  constructor, the formatting of the jobs or the send call raises, the boolean is
  \<^verbatim>\<open>False\<close>.
\<close>

theorem send_job_alert_email_returns_bool:
  "(\<exists>b out. send_job_alert_email RESEND_API_KEY sdk recipient_email top_jobs = Inr (b, out))
   \<and> (\<not> env_set RESEND_API_KEY
        \<or> (\<exists>e. Resend sdk (the RESEND_API_KEY) = Inl e)
        \<or> (\<exists>e. format_jobs_for_email top_jobs = Inl e)
        \<or> (\<exists>c h e. Resend sdk (the RESEND_API_KEY) = Inr c \<and> format_jobs_for_email top_jobs = Inr h
              \<and> emails_send sdk c
                   \<lparr>email_from = ''alerts@yourdomain.com'', email_to = recipient_email,
                    subject = [CHR 0xF0, CHR 0x9F, CHR 0x8E, CHR 0xAF]
                      @ '' Your Top 3 Personalized Job Matches from PortfolioAI!'',
                    html = h\<rparr> = Inl e)
      \<longrightarrow> (\<exists>out. send_job_alert_email RESEND_API_KEY sdk recipient_email top_jobs = Inr (False, out)))"
proof (intro conjI impI)
  show "\<exists>b out. send_job_alert_email RESEND_API_KEY sdk recipient_email top_jobs = Inr (b, out)"
    by (auto simp: send_job_alert_email_def try_except_def bind_exn_def split: sum.splits)
next
  assume "\<not> env_set RESEND_API_KEY
        \<or> (\<exists>e. Resend sdk (the RESEND_API_KEY) = Inl e)
        \<or> (\<exists>e. format_jobs_for_email top_jobs = Inl e)
        \<or> (\<exists>c h e. Resend sdk (the RESEND_API_KEY) = Inr c \<and> format_jobs_for_email top_jobs = Inr h
              \<and> emails_send sdk c
                   \<lparr>email_from = ''alerts@yourdomain.com'', email_to = recipient_email,
                    subject = [CHR 0xF0, CHR 0x9F, CHR 0x8E, CHR 0xAF]
                      @ '' Your Top 3 Personalized Job Matches from PortfolioAI!'',
                    html = h\<rparr> = Inl e)"
  then show "\<exists>out. send_job_alert_email RESEND_API_KEY sdk recipient_email top_jobs = Inr (False, out)"
    by (auto simp: send_job_alert_email_def try_except_def bind_exn_def split: sum.splits)
qed

text \<open>
  The theorem at a missing key; beside it, a send call that raises and a job without
  \<^verbatim>\<open>company_name\<close>.
\<close>

theorem send_job_alert_email_returns_bool_witness:
  "send_job_alert_email None \<lparr>Resend = (\<lambda>k. Inr ()), emails_send = (\<lambda>c m. Inr ())\<rparr> ''alice@x.com'' []
     = Inr (False, [Print ''Resend API Key is missing. Email skipped.''])
   \<and> send_job_alert_email (Some ''re_123'')
        \<lparr>Resend = (\<lambda>k. Inr ()), emails_send = (\<lambda>c m. Inl (APIError ''domain not verified''))\<rparr>
        ''alice@x.com'' []
     = Inr (False, [Print_exn ''Resend email failure: '' (APIError ''domain not verified'')])
   \<and> send_job_alert_email (Some ''re_123'')
        \<lparr>Resend = (\<lambda>k. Inr ()), emails_send = (\<lambda>c m. Inr ())\<rparr>
        ''alice@x.com'' [[(''title'', ''Software Engineer'')]]
     = Inr (False, [Print_exn ''Resend email failure: '' (KeyError ''company_name'')])"
proof -
  have a: "\<exists>out. send_job_alert_email None \<lparr>Resend = (\<lambda>k. Inr ()), emails_send = (\<lambda>c m. Inr ())\<rparr>
      ''alice@x.com'' [] = Inr (False, out)"
    using send_job_alert_email_returns_bool
      [of None "\<lparr>Resend = (\<lambda>k. Inr ()), emails_send = (\<lambda>c m. Inr ())\<rparr>" "''alice@x.com''" "[]"]
    by (simp add: env_set_def)
  show ?thesis
    using a
    by (simp add: send_job_alert_email_def env_set_def try_except_def bind_exn_def
        format_jobs_for_email_def job_html_def getitem_def)
qed

end
